theory Spec2Isabelle
  imports Main "HOL-Library.Word" "HOL-Library.Sublist"
begin

section \<open>Class Sync: the command runner and the four command workflows\<close>

text \<open>
  The extension shells out to \<^verbatim>\<open>git\<close> through one helper, \<^verbatim>\<open>runCommand\<close>, and registers four
  command handlers (\<^verbatim>\<open>professorSetup\<close>, \<^verbatim>\<open>professorSync\<close>, \<^verbatim>\<open>studentSetup\<close>,
  \<^verbatim>\<open>studentResync\<close>). The student-only build of the extension repeats \<^verbatim>\<open>runCommand\<close>,
  \<^verbatim>\<open>studentSetup\<close> and \<^verbatim>\<open>studentResync\<close> with the same code, so one model serves both files.

  Everything a handler does to the outside world is appended to a trace of events, in the
  order the handler does it. What the outside world answers (the user's answer to a dialog,
  what the shell reports for a command) is an input of the model.
\<close>

subsection \<open>JavaScript strings\<close>

text \<open>
  A JavaScript string is a sequence of 16-bit code units. The literals of the source are
  ASCII, embedded by \<open>js\<close>.
\<close>

type_synonym jsstring = "16 word list"

definition js :: "string \<Rightarrow> jsstring" where
  "js s = map of_char s"

text \<open>
  \<^verbatim>\<open>String.prototype.trim\<close> strips the code units of ECMAScript's WhiteSpace and
  LineTerminator productions from both ends.
\<close>

definition isWhiteSpace :: "16 word \<Rightarrow> bool" where
  "isWhiteSpace c \<longleftrightarrow>
     c \<in> set [0x0009, 0x000A, 0x000B, 0x000C, 0x000D, 0x0020, 0x00A0, 0x1680,
              0x2000, 0x2001, 0x2002, 0x2003, 0x2004, 0x2005, 0x2006, 0x2007,
              0x2008, 0x2009, 0x200A, 0x2028, 0x2029, 0x202F, 0x205F, 0x3000, 0xFEFF]"

definition trim :: "jsstring \<Rightarrow> jsstring" where
  "trim s = rev (dropWhile isWhiteSpace (rev (dropWhile isWhiteSpace s)))"

subsection \<open>Errors, promises, events\<close>

text \<open>
  The error object that \<^verbatim>\<open>child_process.exec\<close> hands to its callback: an \<^verbatim>\<open>Error\<close> with the
  exit code, the signal and the command; its message quotes the command and its stderr.
\<close>

record ExecException =
  name :: jsstring
  message :: jsstring
  cmd :: "jsstring option"
  killed :: "bool option"
  code :: "int option"
  signal :: "jsstring option"

text \<open>
  \<^verbatim>\<open>runCommand\<close> rejects either with a string (no folder open) or with the error object of
  \<^verbatim>\<open>exec\<close>.
\<close>

datatype rejection = Reason jsstring | ErrorObject ExecException

text \<open>
  The state of a promise once the handler has gone as far as it can: \<open>Pending\<close> is a
  promise that never settles (the child process never reports back).
\<close>

datatype 'a promise = Resolved 'a | Rejected rejection | Pending

datatype event =
    WithProgress jsstring
  | Exec jsstring jsstring
  | ConsoleError jsstring ExecException
  | ConsoleLog jsstring
  | ShowInputBox jsstring "jsstring option"
  | ShowWarningMessage jsstring bool "jsstring list"
  | ShowInformationMessage jsstring
  | ShowErrorMessage jsstring
  | WorkspaceStateUpdate jsstring jsstring
  | ExecuteCommand jsstring

text \<open>
  What \<^verbatim>\<open>exec\<close> passes to its callback: \<open>Callback error stdout stderr\<close>, with
  \<open>error = None\<close> for JavaScript's \<^verbatim>\<open>null\<close>; \<open>NoCallback\<close> when the callback is never
  called.
\<close>

datatype exec_result =
    Callback "ExecException option" jsstring jsstring
  | NoCallback

text \<open>
  The shell is an input of the model: given the commands run so far (each with its working
  directory), the command and the working directory, it tells what \<^verbatim>\<open>exec\<close> reports.
\<close>

type_synonym shell = "(jsstring \<times> jsstring) list \<Rightarrow> jsstring \<Rightarrow> jsstring \<Rightarrow> exec_result"

text \<open>
  \<open>workspaceFolders\<close> holds the \<^verbatim>\<open>uri.fsPath\<close> of each open folder (\<open>None\<close> for
  \<^verbatim>\<open>undefined\<close>); \<open>workspaceState\<close> is the extension's workspace-scoped key-value store.
\<close>

record world =
  workspaceFolders :: "jsstring list option"
  workspaceState :: "jsstring \<rightharpoonup> jsstring"
  events :: "event list"

definition emit :: "event \<Rightarrow> world \<Rightarrow> world" where
  "emit e w = w\<lparr>events := events w @ [e]\<rparr>"

text \<open>The commands handed to \<^verbatim>\<open>exec\<close> in a trace, oldest first, each with its directory.\<close>

fun execs :: "event list \<Rightarrow> (jsstring \<times> jsstring) list" where
  "execs [] = []"
| "execs (Exec command cwd # es) = (command, cwd) # execs es"
| "execs (_ # es) = execs es"

text \<open>The events a handler added when it took the world from \<open>w\<close> to \<open>w'\<close>.\<close>

definition new_events :: "world \<Rightarrow> world \<Rightarrow> event list" where
  "new_events w w' = drop (length (events w)) (events w')"

subsection \<open>Sequencing\<close>

text \<open>
  \<open>await m k\<close> is \<^verbatim>\<open>const v = await m; k(v)\<close>: a rejection of \<open>m\<close> is thrown past \<open>k\<close>, and
  a promise that never settles stops the handler there. \<open>call\<close> is a call whose result is
  used at once (the UI calls whose promise the source does not await). \<open>try_catch\<close> is
  \<^verbatim>\<open>try { ... } catch (error) { ... }\<close>.
\<close>

definition resolve :: "'a \<Rightarrow> world \<Rightarrow> 'a promise \<times> world" where
  "resolve v w = (Resolved v, w)"

definition await ::
  "(world \<Rightarrow> 'a promise \<times> world) \<Rightarrow> ('a \<Rightarrow> world \<Rightarrow> 'b promise \<times> world) \<Rightarrow>
   world \<Rightarrow> 'b promise \<times> world" where
  "await m k w =
     (case m w of
        (Resolved v, w') \<Rightarrow> k v w'
      | (Rejected error, w') \<Rightarrow> (Rejected error, w')
      | (Pending, w') \<Rightarrow> (Pending, w'))"

definition call :: "(world \<Rightarrow> 'a \<times> world) \<Rightarrow> ('a \<Rightarrow> world \<Rightarrow> 'b) \<Rightarrow> world \<Rightarrow> 'b" where
  "call f k w = (case f w of (v, w') \<Rightarrow> k v w')"

definition try_catch ::
  "(world \<Rightarrow> 'a promise \<times> world) \<Rightarrow> (rejection \<Rightarrow> world \<Rightarrow> 'a promise \<times> world) \<Rightarrow>
   world \<Rightarrow> 'a promise \<times> world" where
  "try_catch body handler w =
     (case body w of
        (Rejected error, w') \<Rightarrow> handler error w'
      | (Resolved v, w') \<Rightarrow> (Resolved v, w')
      | (Pending, w') \<Rightarrow> (Pending, w'))"

subsection \<open>The editor's API\<close>

definition showInputBox ::
  "jsstring \<Rightarrow> jsstring option \<Rightarrow> jsstring option \<Rightarrow> world \<Rightarrow> jsstring option promise \<times> world" where
  "showInputBox prompt placeHolder answer w =
     (Resolved answer, emit (ShowInputBox prompt placeHolder) w)"

definition showWarningMessage ::
  "jsstring \<Rightarrow> bool \<Rightarrow> jsstring list \<Rightarrow> jsstring option \<Rightarrow> world \<Rightarrow>
   jsstring option promise \<times> world" where
  "showWarningMessage msg modal items answer w =
     (Resolved answer, emit (ShowWarningMessage msg modal items) w)"

definition showInformationMessage :: "jsstring \<Rightarrow> world \<Rightarrow> unit \<times> world" where
  "showInformationMessage msg w = ((), emit (ShowInformationMessage msg) w)"

definition showErrorMessage :: "jsstring \<Rightarrow> world \<Rightarrow> unit \<times> world" where
  "showErrorMessage msg w = ((), emit (ShowErrorMessage msg) w)"

definition console_log :: "jsstring \<Rightarrow> world \<Rightarrow> unit \<times> world" where
  "console_log msg w = ((), emit (ConsoleLog msg) w)"

definition executeCommand :: "jsstring \<Rightarrow> world \<Rightarrow> unit \<times> world" where
  "executeCommand command w = ((), emit (ExecuteCommand command) w)"

definition context_workspaceState_update :: "jsstring \<Rightarrow> jsstring \<Rightarrow> world \<Rightarrow> unit promise \<times> world" where
  "context_workspaceState_update key v w =
     (Resolved (), emit (WorkspaceStateUpdate key v) (w\<lparr>workspaceState := (workspaceState w)(key \<mapsto> v)\<rparr>))"

text \<open>
  \<^verbatim>\<open>Error.prototype.toString\<close>, and the text \<^verbatim>\<open>${error.message || error}\<close> that every handler
  puts into its error notification: the message of an error object unless it is empty, the
  rejection converted to a string otherwise (a string has no \<^verbatim>\<open>message\<close>).
\<close>

definition error_toString :: "ExecException \<Rightarrow> jsstring" where
  "error_toString e =
     (if name e = [] then message e
      else if message e = [] then name e
      else name e @ js '': '' @ message e)"

definition error_text :: "rejection \<Rightarrow> jsstring" where
  "error_text error =
     (case error of
        Reason s \<Rightarrow> s
      | ErrorObject e \<Rightarrow> if message e \<noteq> [] then message e else error_toString e)"

subsection \<open>The command runner\<close>

text \<open>\<^verbatim>\<open>vscode.workspace.workspaceFolders?.[0]?.uri.fsPath\<close>\<close>

definition workspaceFolder :: "world \<Rightarrow> jsstring option" where
  "workspaceFolder w =
     (case workspaceFolders w of
        None \<Rightarrow> None
      | Some [] \<Rightarrow> None
      | Some (folder # _) \<Rightarrow> Some folder)"

definition runCommand :: "shell \<Rightarrow> jsstring \<Rightarrow> jsstring \<Rightarrow> world \<Rightarrow> jsstring promise \<times> world" where
  "runCommand exec command progressTitle w =
     (case workspaceFolder w of
        None \<Rightarrow> (Rejected (Reason (js ''Please open a project folder first.'')), w)
      | Some folder \<Rightarrow>
          if folder = [] then (Rejected (Reason (js ''Please open a project folder first.'')), w)
          else
            (let w1 = emit (WithProgress progressTitle) w;
                 w2 = emit (Exec command folder) w1
             in case exec (execs (events w)) command folder of
                  Callback error stdout stderr \<Rightarrow>
                    (case error of
                       Some e \<Rightarrow>
                         (Rejected (ErrorObject e),
                          emit (ConsoleError (js ''Execution error object:'') e) w2)
                     | None \<Rightarrow>
                         (Resolved stdout,
                          emit (ConsoleLog (js ''Command output: '' @ stdout)) w2))
                | NoCallback \<Rightarrow> (Pending, w2)))"

subsection \<open>The professor's commands\<close>

text \<open>\<open>answer\<close> is what the user gives to the input box (\<open>None\<close> when it is dismissed).\<close>

definition professorSetup :: "shell \<Rightarrow> jsstring option \<Rightarrow> world \<Rightarrow> unit promise \<times> world" where
  \<open>professorSetup exec answer =
     try_catch
       (let userName = js ''Afonso Miguel'';
            userEmail = js ''afonso.miguel@pucpr.br''
        in
        await (showInputBox (js ''Enter the repository name'')
                 (Some (js ''e.g., class-repo (must be created and empty on GitHub first)'')) answer)
        (\<lambda>repoName.
        case repoName of
          None \<Rightarrow> resolve ()
        | Some repoName \<Rightarrow>
            if repoName = [] then resolve ()
            else
              (let repoUrl = js ''https://github.com/afmiguel/'' @ repoName @ js ''.git'' in
               await (runCommand exec (js ''git config --global user.name "'' @ userName @ js ''"'')
                        (js ''Configuring user name...''))
               (\<lambda>_.
               await (runCommand exec (js ''git config --global user.email "'' @ userEmail @ js ''"'')
                        (js ''Configuring email...''))
               (\<lambda>_.
               call (showInformationMessage (js ''Git configured globally for: '' @ userName))
               (\<lambda>_.
               await (runCommand exec (js ''git init'') (js ''Initializing local repository...''))
               (\<lambda>_.
               await (try_catch
                        (await (runCommand exec (js ''git remote remove origin'')
                                  (js ''Cleaning up old remote configurations...''))
                           (\<lambda>_. resolve ()))
                        (\<lambda>error.
                           call (console_log (js ''No old 'origin' remote to remove, which is normal.''))
                             (\<lambda>_. resolve ())))
               (\<lambda>_.
               await (runCommand exec (js ''git remote add origin '' @ repoUrl)
                        (js ''Connecting to the remote repository...''))
               (\<lambda>_.
               await (runCommand exec (js ''git add .'') (js ''Adding files...''))
               (\<lambda>_.
               await (runCommand exec (js ''git commit --allow-empty -m "Initial commit from Class Sync"'')
                        (js ''Making initial commit...''))
               (\<lambda>_.
               await (runCommand exec (js ''git branch --show-current'') (js ''Checking current branch...''))
               (\<lambda>stdout.
               let branchName = trim stdout in
               await (runCommand exec (js ''git push -u origin '' @ branchName)
                        (js ''Pushing initial project...''))
               (\<lambda>_.
               call (showInformationMessage (js ''Repository configured and pushed successfully!''))
               (\<lambda>_. resolve ()))))))))))))))
       (\<lambda>error.
          call (showErrorMessage (js ''An error occurred: '' @ error_text error))
            (\<lambda>_. resolve ()))\<close>

definition professorSync :: "shell \<Rightarrow> world \<Rightarrow> unit promise \<times> world" where
  \<open>professorSync exec =
     try_catch
       (await (runCommand exec (js ''git status --porcelain'') (js ''Checking for changes...''))
        (\<lambda>status.
        if trim status = [] then
          call (showInformationMessage (js ''No new changes to send.''))
            (\<lambda>_. resolve ())
        else
          await (runCommand exec (js ''git add .'') (js ''Adding changes...''))
          (\<lambda>_.
          await (runCommand exec (js ''git commit -m "Update from professor"'') (js ''Committing changes...''))
          (\<lambda>_.
          await (runCommand exec (js ''git push'') (js ''Pushing updates...''))
          (\<lambda>_.
          call (showInformationMessage (js ''Update pushed successfully!''))
          (\<lambda>_. resolve ()))))))
       (\<lambda>error.
          call (showErrorMessage (js ''Failed to push update: '' @ error_text error))
            (\<lambda>_. resolve ()))\<close>

subsection \<open>The student's commands\<close>

definition studentSetup :: "shell \<Rightarrow> jsstring option \<Rightarrow> world \<Rightarrow> unit promise \<times> world" where
  \<open>studentSetup exec answer =
     try_catch
       (await (showInputBox (js ''Enter the name of the professor's repository'') None answer)
        (\<lambda>repoName.
        case repoName of
          None \<Rightarrow> resolve ()
        | Some repoName \<Rightarrow>
            if repoName = [] then resolve ()
            else
              (let repoUrl = js ''https://github.com/afmiguel/'' @ repoName @ js ''.git'' in
               await (runCommand exec (js ''git clone '' @ repoUrl @ js '' .'')
                        (js ''Cloning the professor's project...''))
               (\<lambda>_.
               await (context_workspaceState_update (js ''repoUrl'') repoUrl)
               (\<lambda>_.
               call (showInformationMessage
                       (js ''Professor's project cloned successfully! The window will now reload.''))
               (\<lambda>_.
               call (executeCommand (js ''workbench.action.reloadWindow''))
               (\<lambda>_. resolve ())))))))
       (\<lambda>error.
          call (showErrorMessage (js ''Failed to clone repository: '' @ error_text error))
            (\<lambda>_. resolve ()))\<close>

text \<open>\<open>answer\<close> is the button the user chose in the warning dialog (\<open>None\<close> when dismissed).\<close>

definition studentResync :: "shell \<Rightarrow> jsstring option \<Rightarrow> world \<Rightarrow> unit promise \<times> world" where
  \<open>studentResync exec answer =
     await (showWarningMessage
              (js ''This will discard ALL your local changes and download the professor's latest version. Are you sure?'')
              True [js ''Yes, reset my work''] answer)
     (\<lambda>confirmation.
     if confirmation = Some (js ''Yes, reset my work'') then
       try_catch
         (await (runCommand exec (js ''git fetch origin'') (js ''Fetching professor's version...''))
          (\<lambda>_.
          await (runCommand exec (js ''git branch --show-current'') (js ''Checking current branch...''))
          (\<lambda>stdout.
          let branchName = trim stdout in
          await (runCommand exec (js ''git reset --hard origin/'' @ branchName)
                   (js ''Resetting to professor's version...''))
          (\<lambda>_.
          await (runCommand exec (js ''git clean -fd'') (js ''Cleaning untracked files...''))
          (\<lambda>_.
          call (showInformationMessage (js ''Project synced successfully!''))
          (\<lambda>_. resolve ()))))))
         (\<lambda>error.
            call (showErrorMessage (js ''Failed to sync: '' @ error_text error))
              (\<lambda>_. resolve ()))
     else resolve ())\<close>

subsection \<open>Reading a trace\<close>

text \<open>A folder is open when the runner's guard \<^verbatim>\<open>!workspaceFolder\<close> lets the command through.\<close>

definition folder_open :: "world \<Rightarrow> bool" where
  "folder_open w \<longleftrightarrow> (case workspaceFolder w of None \<Rightarrow> False | Some folder \<Rightarrow> folder \<noteq> [])"

text \<open>
  \<open>runs m Q\<close>: started with a folder open, \<open>m\<close> only appends to the trace, leaves the
  open folders alone, and the commands it hands to \<^verbatim>\<open>exec\<close>, in order, satisfy \<open>Q\<close>.
\<close>

definition runs :: "(world \<Rightarrow> 'a \<times> world) \<Rightarrow> (jsstring list \<Rightarrow> bool) \<Rightarrow> bool" where
  "runs m Q \<longleftrightarrow>
     (\<forall>w. folder_open w \<longrightarrow>
        (\<exists>es. events (snd (m w)) = events w @ es \<and>
              workspaceFolders (snd (m w)) = workspaceFolders w \<and>
              Q (map fst (execs es))))"

text \<open>
  The notifications that surface an error, and the log lines that \<^verbatim>\<open>runCommand\<close> writes when
  it rejects with the error object of \<^verbatim>\<open>exec\<close>.
\<close>

fun is_error_notification :: "event \<Rightarrow> bool" where
  "is_error_notification (ShowErrorMessage msg) = True"
| "is_error_notification _ = False"

fun is_rejection_log :: "event \<Rightarrow> bool" where
  "is_rejection_log (ConsoleError label e) = True"
| "is_rejection_log _ = False"

subsection \<open>Sample inputs\<close>

text \<open>
  A world with one folder open and one with none; an error object as \<^verbatim>\<open>exec\<close> builds it for
  exit status 1; a shell where every command succeeds and prints \<open>out\<close>, and one where the
  command run after \<open>n\<close> others fails and the others succeed.
\<close>

definition w_open :: world where
  "w_open = \<lparr>workspaceFolders = Some [js ''/home/class''], workspaceState = Map.empty, events = []\<rparr>"

definition w_closed :: world where
  "w_closed = \<lparr>workspaceFolders = None, workspaceState = Map.empty, events = []\<rparr>"

definition git_error :: ExecException where
  "git_error = \<lparr>name = js ''Error'', message = js ''Command failed'', cmd = None,
                 killed = Some False, code = Some 1, signal = None\<rparr>"

definition shell_prints :: "jsstring \<Rightarrow> shell" where
  "shell_prints out history command cwd = Callback None out []"

definition shell_fails_at :: "nat \<Rightarrow> jsstring \<Rightarrow> shell" where
  "shell_fails_at n out history command cwd =
     (if length history = n then Callback (Some git_error) [] (js ''fatal'')
      else Callback None out [])"

section \<open>Properties\<close>

subsection \<open>String literals\<close>

lemma of_char_less_256: "(of_char c :: nat) < 256"
proof -
  have "(of_char c :: nat) mod 256 = of_char c" by (rule of_char_mod_256)
  moreover have "(of_char c :: nat) mod 256 < 256" by simp
  ultimately show ?thesis by simp
qed

lemma unat_of_char: "unat (of_char c :: 16 word) = (of_char c :: nat)"
proof -
  have "(of_char c :: 16 word) = of_nat (of_char c)"
    by (simp add: of_nat_of_char)
  moreover have "(of_char c :: nat) < 2 ^ 16"
    by (rule less_trans [OF of_char_less_256]) simp
  ultimately show ?thesis
    by (simp add: unat_of_nat)
qed

lemma js_inject: "js a = js b \<longleftrightarrow> a = b"
proof
  assume "js a = js b"
  then have "map unat (js a) = map unat (js b)" by simp
  then have "map (of_char :: char \<Rightarrow> nat) a = map of_char b"
    by (simp add: js_def unat_of_char comp_def)
  then show "a = b"
    using inj_of_char [where ?'a = nat] by simp
qed simp

lemma js_append: "js a @ js b = js (a @ b)"
  by (simp add: js_def)

lemma js_eq_Nil: "js s = [] \<longleftrightarrow> s = []"
  by (simp add: js_def)

lemma trim_main: "trim (js ''main'' @ [0x0A]) = js ''main''"
  by (simp add: js_def trim_def isWhiteSpace_def)

subsection \<open>Sequencing and the runner\<close>

lemma execs_append: "execs (xs @ ys) = execs xs @ execs ys"
  by (induction xs rule: execs.induct) simp_all

lemma folder_open_cong:
  "workspaceFolders w' = workspaceFolders w \<Longrightarrow> folder_open w' = folder_open w"
  by (simp add: folder_open_def workspaceFolder_def)

lemma runsD:
  assumes "runs m Q" and "folder_open w" and "m w = (p, w1)"
  shows "\<exists>es. events w1 = events w @ es \<and> workspaceFolders w1 = workspaceFolders w \<and>
              Q (map fst (execs es))"
proof -
  from assms(1,2) have "\<exists>es. events (snd (m w)) = events w @ es \<and>
      workspaceFolders (snd (m w)) = workspaceFolders w \<and> Q (map fst (execs es))"
    unfolding runs_def by blast
  with assms(3) show ?thesis by simp
qed

lemma runsD_snd:
  assumes "runs m Q" and "folder_open w"
  shows "\<exists>es. events (snd (m w)) = events w @ es \<and>
              workspaceFolders (snd (m w)) = workspaceFolders w \<and> Q (map fst (execs es))"
  using assms unfolding runs_def by blast

lemma runs_resolve: "Q [] \<Longrightarrow> runs (resolve v) Q"
  by (simp add: runs_def resolve_def)

lemma runs_runCommand: "runs (runCommand exec command progressTitle) (\<lambda>xs. xs = [command])"
  by (auto simp: runs_def folder_open_def runCommand_def emit_def Let_def
      split: option.splits exec_result.splits)

lemma runs_showInformationMessage: "runs (showInformationMessage msg) (\<lambda>xs. xs = [])"
  by (simp add: runs_def showInformationMessage_def emit_def)

lemma runs_showErrorMessage: "runs (showErrorMessage msg) (\<lambda>xs. xs = [])"
  by (simp add: runs_def showErrorMessage_def emit_def)



lemma runs_call:
  assumes f: "runs f (\<lambda>xs. xs = [])" and k: "\<And>v. runs (k v) Q"
  shows "runs (call f k) Q"
  unfolding runs_def
proof (intro allI impI)
  fix w assume o: "folder_open w"
  obtain v w1 where fw: "f w = (v, w1)" by (cases "f w")
  from runsD [OF f o fw] obtain es where es: "events w1 = events w @ es"
    "workspaceFolders w1 = workspaceFolders w" "execs es = []"
    by auto
  from es(2) o have "folder_open w1" using folder_open_cong [OF es(2)] by simp
  then obtain es' where es': "events (snd (k v w1)) = events w1 @ es'"
    "workspaceFolders (snd (k v w1)) = workspaceFolders w1" "Q (map fst (execs es'))"
    using runsD_snd [OF k [of v], of w1] by auto
  show "\<exists>es. events (snd (call f k w)) = events w @ es \<and>
             workspaceFolders (snd (call f k w)) = workspaceFolders w \<and> Q (map fst (execs es))"
    using es es' fw by (intro exI [of _ "es @ es'"]) (simp add: call_def execs_append)
qed

lemma runs_await:
  assumes m: "runs m (\<lambda>xs. xs = ys)" and stop: "Q ys"
    and k: "\<And>v. runs (k v) (\<lambda>xs. Q (ys @ xs))"
  shows "runs (await m k) Q"
  unfolding runs_def
proof (intro allI impI)
  fix w assume o: "folder_open w"
  obtain p w1 where mw: "m w = (p, w1)" by (cases "m w")
  from runsD [OF m o mw] obtain es where es: "events w1 = events w @ es"
    "workspaceFolders w1 = workspaceFolders w" "map fst (execs es) = ys"
    by auto
  from es(2) o have o1: "folder_open w1" using folder_open_cong [OF es(2)] by simp
  show "\<exists>es. events (snd (await m k w)) = events w @ es \<and>
             workspaceFolders (snd (await m k w)) = workspaceFolders w \<and> Q (map fst (execs es))"
  proof (cases p)
    case (Resolved v)
    from runsD_snd [OF k [of v] o1]
    obtain es' where es': "events (snd (k v w1)) = events w1 @ es'"
      "workspaceFolders (snd (k v w1)) = workspaceFolders w1" "Q (ys @ map fst (execs es'))"
      by auto
    show ?thesis
      using es es' mw Resolved by (intro exI [of _ "es @ es'"]) (simp add: await_def execs_append)
  next
    case (Rejected r)
    show ?thesis
      using es mw Rejected stop by (intro exI [of _ es]) (simp add: await_def)
  next
    case Pending
    show ?thesis
      using es mw Pending stop by (intro exI [of _ es]) (simp add: await_def)
  qed
qed

lemma runs_await_runCommand:
  "Q [command] \<Longrightarrow> (\<And>stdout. runs (k stdout) (\<lambda>xs. Q (command # xs))) \<Longrightarrow>
   runs (await (runCommand exec command progressTitle) k) Q"
  using runs_await [OF runs_runCommand, of Q command k] by simp


lemma runs_await_showWarningMessage:
  assumes "runs (k answer) Q"
  shows "runs (await (showWarningMessage msg modal items answer) k) Q"
  unfolding runs_def
proof (intro allI impI)
  fix w assume o: "folder_open w"
  let ?w1 = "emit (ShowWarningMessage msg modal items) w"
  have "folder_open ?w1" using o by (simp add: folder_open_def workspaceFolder_def emit_def)
  from runsD_snd [OF assms this]
  obtain es' where es': "events (snd (k answer ?w1)) = events ?w1 @ es'"
      "workspaceFolders (snd (k answer ?w1)) = workspaceFolders ?w1" "Q (map fst (execs es'))"
    by auto
  show "\<exists>es. events (snd (await (showWarningMessage msg modal items answer) k w)) = events w @ es \<and>
             workspaceFolders (snd (await (showWarningMessage msg modal items answer) k w)) = workspaceFolders w \<and>
             Q (map fst (execs es))"
    using es' by (intro exI [of _ "ShowWarningMessage msg modal items # es'"])
      (simp add: await_def showWarningMessage_def emit_def)
qed



lemma runs_try_catch:
  assumes body: "runs body Q" and h: "\<And>error. runs (handler error) (\<lambda>xs. xs = [])"
  shows "runs (try_catch body handler) Q"
  unfolding runs_def
proof (intro allI impI)
  fix w assume o: "folder_open w"
  obtain p w1 where bw: "body w = (p, w1)" by (cases "body w")
  from runsD [OF body o bw] obtain es where es: "events w1 = events w @ es"
    "workspaceFolders w1 = workspaceFolders w" "Q (map fst (execs es))"
    by auto
  from es(2) o have o1: "folder_open w1" using folder_open_cong [OF es(2)] by simp
  show "\<exists>es. events (snd (try_catch body handler w)) = events w @ es \<and>
             workspaceFolders (snd (try_catch body handler w)) = workspaceFolders w \<and>
             Q (map fst (execs es))"
  proof (cases p)
    case (Resolved v)
    show ?thesis using es bw Resolved by (intro exI [of _ es]) (simp add: try_catch_def)
  next
    case (Rejected r)
    from runsD_snd [OF h [of r] o1]
    obtain es' where es': "events (snd (handler r w1)) = events w1 @ es'"
      "workspaceFolders (snd (handler r w1)) = workspaceFolders w1" "execs es' = []"
      by auto
    show ?thesis
      using es es' bw Rejected by (intro exI [of _ "es @ es'"]) (simp add: try_catch_def execs_append)
  next
    case Pending
    show ?thesis using es bw Pending by (intro exI [of _ es]) (simp add: try_catch_def)
  qed
qed

lemma runs_new_events:
  "runs m Q \<Longrightarrow> folder_open w \<Longrightarrow> Q (map fst (execs (new_events w (snd (m w)))))"
  by (auto simp: runs_def new_events_def)

lemma runs_notify_error:
  "runs (call (showErrorMessage msg) (\<lambda>_. resolve ())) (\<lambda>xs. xs = [])"
  by (intro runs_call runs_showErrorMessage runs_resolve) simp

lemma runCommand_no_folder:
  "workspaceFolder w = None \<or> workspaceFolder w = Some [] \<Longrightarrow>
   runCommand exec command progressTitle w =
     (Rejected (Reason (js ''Please open a project folder first.'')), w)"
  by (auto simp: runCommand_def)

lemma runCommand_open:
  "workspaceFolders w = Some (folder # others) \<Longrightarrow> folder \<noteq> [] \<Longrightarrow>
   runCommand exec command progressTitle w =
     (case exec (execs (events w)) command folder of
        Callback error stdout stderr \<Rightarrow>
          (case error of
             Some e \<Rightarrow>
               (Rejected (ErrorObject e),
                w\<lparr>events := events w @ [WithProgress progressTitle, Exec command folder,
                                         ConsoleError (js ''Execution error object:'') e]\<rparr>)
           | None \<Rightarrow>
               (Resolved stdout,
                w\<lparr>events := events w @ [WithProgress progressTitle, Exec command folder,
                                         ConsoleLog (js ''Command output: '' @ stdout)]\<rparr>))
      | NoCallback \<Rightarrow>
          (Pending, w\<lparr>events := events w @ [WithProgress progressTitle, Exec command folder]\<rparr>))"
  by (simp add: runCommand_def workspaceFolder_def emit_def Let_def
      split: exec_result.splits option.splits)

lemma runCommand_workspaceState:
  "workspaceState (snd (runCommand exec command progressTitle w)) = workspaceState w"
  by (simp add: runCommand_def emit_def Let_def split: exec_result.splits option.splits)

lemma workspaceFolder_emit: "workspaceFolder (emit e w) = workspaceFolder w"
  by (simp add: workspaceFolder_def emit_def)

lemma not_folder_open: "\<not> folder_open w \<Longrightarrow> workspaceFolder w = None \<or> workspaceFolder w = Some []"
  by (auto simp: folder_open_def split: option.splits)

lemmas handler_defs =
  await_def try_catch_def call_def resolve_def showInputBox_def showWarningMessage_def
  showInformationMessage_def showErrorMessage_def console_log_def executeCommand_def
  context_workspaceState_update_def

subsection \<open>The command runner\<close>

text \<open>
  Claim C5. With no workspace folder open, \<^verbatim>\<open>runCommand\<close> rejects with the message that asks
  the user to open a project folder first, whatever the command and the progress title, and
  the world is as it was: nothing is handed to \<^verbatim>\<open>exec\<close> and no progress notification is shown.
\<close>

theorem runCommand_rejects_without_folder:
  assumes "workspaceFolders w = None \<or> workspaceFolders w = Some []"
  shows "runCommand exec command progressTitle w =
           (Rejected (Reason (js ''Please open a project folder first.'')), w)"
  using assms by (intro runCommand_no_folder) (auto simp: workspaceFolder_def)

theorem runCommand_rejects_without_folder_witness:
  "workspaceFolders w_closed = None \<and>
   runCommand (shell_prints (js ''ok'')) (js ''git push'') (js ''Pushing updates...'') w_closed =
     (Rejected (Reason (js ''Please open a project folder first.'')), w_closed) \<and>
   execs (events w_closed) = []"
  using runCommand_rejects_without_folder
    [of w_closed "shell_prints (js ''ok'')" "js ''git push''" "js ''Pushing updates...''"]
  by (simp add: w_closed_def)



subsection \<open>Student setup\<close>

text \<open>
  Claim C10. When the input box of the student setup is dismissed or returns the empty
  string, the handler returns at once: the only event is the input box itself, so no shell
  command is run, the workspace state is not updated and neither a success nor an error
  notification is shown.
\<close>

theorem studentSetup_no_name:
  assumes "answer = None \<or> answer = Some []"
  shows "studentSetup exec answer w =
     (Resolved (),
      w\<lparr>events := events w @ [ShowInputBox (js ''Enter the name of the professor's repository'') None]\<rparr>)"
  using assms
  by (auto simp: studentSetup_def try_catch_def await_def showInputBox_def resolve_def emit_def)

theorem studentSetup_no_name_witness:
  "studentSetup (shell_prints (js ''ok'')) (Some []) w_open =
     (Resolved (),
      w_open\<lparr>events := [ShowInputBox (js ''Enter the name of the professor's repository'') None]\<rparr>)"
  using studentSetup_no_name [of "Some []" "shell_prints (js ''ok'')" w_open]
  by (simp add: w_open_def)

subsection \<open>Professor sync\<close>

text \<open>
  Claim C3. When the porcelain status query of the professor sync succeeds with output that
  is empty after trimming, the handler reports that there is nothing to send and stops: the
  status query is the only command it runs (no add, no commit, no push).
\<close>

theorem professorSync_nothing_to_do:
  assumes "workspaceFolders w = Some (folder # others)" and "folder \<noteq> []"
    and "exec (execs (events w)) (js ''git status --porcelain'') folder = Callback None status stderr"
    and "trim status = []"
  shows "professorSync exec w =
     (Resolved (),
      w\<lparr>events := events w @
         [WithProgress (js ''Checking for changes...''),
          Exec (js ''git status --porcelain'') folder,
          ConsoleLog (js ''Command output: '' @ status),
          ShowInformationMessage (js ''No new changes to send.'')]\<rparr>)"
  using assms
  by (simp add: professorSync_def try_catch_def await_def call_def resolve_def
      showInformationMessage_def emit_def runCommand_open)

theorem professorSync_nothing_to_do_witness:
  "trim [0x0A] = [] \<and>
   professorSync (shell_prints [0x0A]) w_open =
     (Resolved (),
      w_open\<lparr>events :=
         [WithProgress (js ''Checking for changes...''),
          Exec (js ''git status --porcelain'') (js ''/home/class''),
          ConsoleLog (js ''Command output: '' @ [0x0A]),
          ShowInformationMessage (js ''No new changes to send.'')]\<rparr>)"
  using professorSync_nothing_to_do
    [of w_open "js ''/home/class''" "[]" "shell_prints [0x0A]" "[0x0A]" "[]"]
  by (simp add: w_open_def shell_prints_def js_def trim_def isWhiteSpace_def)

text \<open>
  Claim C7. When the status query of the professor sync succeeds with output that is not
  empty after trimming, and \<^verbatim>\<open>git add .\<close> and the commit with the fixed message each succeed,
  the handler runs, after the status query, exactly \<^verbatim>\<open>git add .\<close>, then
  \<^verbatim>\<open>git commit -m "Update from professor"\<close>, then \<^verbatim>\<open>git push\<close>, in that order and in the
  workspace folder, and nothing else.
\<close>

theorem professorSync_add_commit_push:
  assumes "workspaceFolders w = Some (folder # others)" and "folder \<noteq> []"
    and "exec (execs (events w)) (js ''git status --porcelain'') folder = Callback None status err1"
    and "trim status \<noteq> []"
    and "exec (execs (events w) @ [(js ''git status --porcelain'', folder)]) (js ''git add .'') folder =
           Callback None out2 err2"
    and "exec (execs (events w) @ [(js ''git status --porcelain'', folder), (js ''git add .'', folder)])
           (js ''git commit -m \"Update from professor\"'') folder = Callback None out3 err3"
  shows "execs (new_events w (snd (professorSync exec w))) =
     [(js ''git status --porcelain'', folder), (js ''git add .'', folder),
      (js ''git commit -m \"Update from professor\"'', folder), (js ''git push'', folder)]"
  using assms
  by (simp add: professorSync_def try_catch_def await_def call_def resolve_def
      showInformationMessage_def showErrorMessage_def emit_def runCommand_open execs_append new_events_def
      split: exec_result.splits option.splits)

theorem professorSync_add_commit_push_witness:
  "trim (js '' M notes.txt'' @ [0x0A]) \<noteq> [] \<and>
   execs (events (snd (professorSync (shell_prints (js '' M notes.txt'' @ [0x0A])) w_open))) =
     [(js ''git status --porcelain'', js ''/home/class''), (js ''git add .'', js ''/home/class''),
      (js ''git commit -m \"Update from professor\"'', js ''/home/class''),
      (js ''git push'', js ''/home/class'')]"
  using professorSync_add_commit_push
    [of w_open "js ''/home/class''" "[]" "shell_prints (js '' M notes.txt'' @ [0x0A])"
      "js '' M notes.txt'' @ [0x0A]" "[]" "js '' M notes.txt'' @ [0x0A]" "[]"
      "js '' M notes.txt'' @ [0x0A]" "[]"]
  by (simp add: w_open_def shell_prints_def new_events_def js_def trim_def isWhiteSpace_def)

text \<open>
  Both conditions are needed. After a status query that prints one changed file, a failing
  \<^verbatim>\<open>git add .\<close> ends the sequence there: neither the commit nor the push is run. And status
  output that is not empty but is a line feed only is treated as a clean tree: only the
  status query is run.
\<close>

theorem professorSync_stops_when_add_fails:
  "fst (runCommand (shell_fails_at 1 (js '' M notes.txt'' @ [0x0A])) (js ''git status --porcelain'')
          (js ''Checking for changes...'') w_open) = Resolved (js '' M notes.txt'' @ [0x0A]) \<and>
   map fst (execs (events (snd (professorSync (shell_fails_at 1 (js '' M notes.txt'' @ [0x0A])) w_open)))) =
     [js ''git status --porcelain'', js ''git add .''] \<and>
   fst (runCommand (shell_prints [0x0A]) (js ''git status --porcelain'')
          (js ''Checking for changes...'') w_open) = Resolved [0x0A] \<and>
   map fst (execs (events (snd (professorSync (shell_prints [0x0A]) w_open)))) =
     [js ''git status --porcelain'']"
  by (simp add: professorSync_def try_catch_def await_def call_def resolve_def
      showInformationMessage_def showErrorMessage_def emit_def runCommand_def workspaceFolder_def
      w_open_def shell_fails_at_def shell_prints_def js_def trim_def isWhiteSpace_def)

subsection \<open>Student setup: the stored URL\<close>

text \<open>
  Claim C9. The student setup writes the workspace-state entry \<^verbatim>\<open>repoUrl\<close> only after the
  clone has succeeded: the update follows the events of the successful clone. When the input
  box is dismissed or left empty, when the clone is rejected and when it never settles, the
  workspace state is what it was before the command.
\<close>

theorem studentSetup_state_update_after_clone:
  "((answer = None \<or> answer = Some []) \<longrightarrow>
      workspaceState (snd (studentSetup exec answer w)) = workspaceState w \<and>
      events (snd (studentSetup exec answer w)) =
        events w @ [ShowInputBox (js ''Enter the name of the professor's repository'') None]) \<and>
   (answer = Some repoName \<and> repoName \<noteq> [] \<and>
    runCommand exec (js ''git clone '' @ (js ''https://github.com/afmiguel/'' @ repoName @ js ''.git'') @ js '' .'')
      (js ''Cloning the professor's project...'')
      (emit (ShowInputBox (js ''Enter the name of the professor's repository'') None) w) = (p, w1) \<longrightarrow>
      (case p of
         Resolved stdout \<Rightarrow>
           studentSetup exec answer w =
             (Resolved (),
              w1\<lparr>workspaceState :=
                    (workspaceState w)(js ''repoUrl'' \<mapsto> js ''https://github.com/afmiguel/'' @ repoName @ js ''.git''),
                  events := events w1 @
                    [WorkspaceStateUpdate (js ''repoUrl'') (js ''https://github.com/afmiguel/'' @ repoName @ js ''.git''),
                     ShowInformationMessage
                       (js ''Professor's project cloned successfully! The window will now reload.''),
                     ExecuteCommand (js ''workbench.action.reloadWindow'')]\<rparr>)
       | Rejected error \<Rightarrow>
           studentSetup exec answer w =
             (Resolved (),
              w1\<lparr>events := events w1 @
                    [ShowErrorMessage (js ''Failed to clone repository: '' @ error_text error)]\<rparr>) \<and>
           workspaceState w1 = workspaceState w
       | Pending \<Rightarrow>
           studentSetup exec answer w = (Pending, w1) \<and> workspaceState w1 = workspaceState w))"
proof -
  have ws: "\<And>c t w0 p w1. runCommand exec c t w0 = (p, w1) \<Longrightarrow> workspaceState w1 = workspaceState w0"
    using runCommand_workspaceState by (metis snd_conv)
  show ?thesis
    by (auto simp: studentSetup_def try_catch_def await_def call_def resolve_def showInputBox_def
        showInformationMessage_def showErrorMessage_def executeCommand_def context_workspaceState_update_def
        emit_def dest!: ws split: promise.splits)
qed

theorem studentSetup_state_update_after_clone_witness:
  "workspaceState (snd (studentSetup (shell_fails_at 0 []) (Some (js ''class-repo'')) w_open)) =
     workspaceState w_open \<and>
   workspaceState (snd (studentSetup (shell_prints []) (Some (js ''class-repo'')) w_open)) (js ''repoUrl'') =
     Some (js ''https://github.com/afmiguel/class-repo.git'') \<and>
   workspaceState (snd (studentSetup (shell_prints []) None w_open)) = workspaceState w_open"
  using studentSetup_state_update_after_clone
    [of "Some (js ''class-repo'')" "shell_fails_at 0 []" w_open "js ''class-repo''"
      "Rejected (ErrorObject git_error)"
      "w_open\<lparr>events :=
         [ShowInputBox (js ''Enter the name of the professor's repository'') None,
          WithProgress (js ''Cloning the professor's project...''),
          Exec (js ''git clone '' @ (js ''https://github.com/afmiguel/'' @ js ''class-repo'' @ js ''.git'') @ js '' .'')
            (js ''/home/class''),
          ConsoleError (js ''Execution error object:'') git_error]\<rparr>"]
    studentSetup_state_update_after_clone
    [of "Some (js ''class-repo'')" "shell_prints []" w_open "js ''class-repo''"
      "Resolved []"
      "w_open\<lparr>events :=
         [ShowInputBox (js ''Enter the name of the professor's repository'') None,
          WithProgress (js ''Cloning the professor's project...''),
          Exec (js ''git clone '' @ (js ''https://github.com/afmiguel/'' @ js ''class-repo'' @ js ''.git'') @ js '' .'')
            (js ''/home/class''),
          ConsoleLog (js ''Command output: '' @ [])]\<rparr>"]
    studentSetup_state_update_after_clone [of None "shell_prints []" w_open]
  by (simp add: runCommand_def workspaceFolder_def emit_def w_open_def shell_fails_at_def
      shell_prints_def js_def)

subsection \<open>Student resync\<close>

lemma studentResync_runs:
  "runs (studentResync exec answer)
     (\<lambda>xs. \<exists>branchName. prefix xs
        [js ''git fetch origin'', js ''git branch --show-current'',
         js ''git reset --hard origin/'' @ branchName, js ''git clean -fd''])"
proof (cases "answer = Some (js ''Yes, reset my work'')")
  case True
  show ?thesis
    unfolding studentResync_def Let_def
    apply (rule runs_await_showWarningMessage)
    apply (subst if_P [OF True])
    apply (intro runs_try_catch runs_await_runCommand runs_call runs_showInformationMessage
        runs_showErrorMessage runs_resolve)
             apply simp_all
    done
next
  case False
  show ?thesis
    unfolding studentResync_def Let_def
    apply (rule runs_await_showWarningMessage)
    apply (subst if_not_P [OF False])
    apply (rule runs_resolve)
    apply simp
    done
qed

lemma studentResync_no_folder:
  assumes "\<not> folder_open w"
  shows "execs (new_events w (snd (studentResync exec answer w))) = []"
  using not_folder_open [OF assms]
  by (auto simp: studentResync_def await_def try_catch_def call_def resolve_def
      showWarningMessage_def showErrorMessage_def new_events_def runCommand_no_folder
      workspaceFolder_emit)
     (simp_all add: emit_def)

text \<open>
  Claim C1. Unless the answer to the modal warning is exactly \<^verbatim>\<open>Yes, reset my work\<close>, the
  student resync does nothing beyond showing the dialog: none of fetch, hard reset and clean
  is run. Whatever the answer and whatever the shell reports, the commands run are an initial
  part of: fetch from origin, query of the current branch, hard reset to
  \<^verbatim>\<open>origin/<branch>\<close>, clean of untracked files; so the three destructive commands are never
  run out of that order. With the confirmation given, a folder open and each earlier command
  succeeding, exactly these four commands are run, in that order, after the dialog.
\<close>

theorem studentResync_only_after_confirmation:
  "(answer \<noteq> Some (js ''Yes, reset my work'') \<longrightarrow>
      studentResync exec answer w =
        (Resolved (),
         w\<lparr>events := events w @
            [ShowWarningMessage
               (js ''This will discard ALL your local changes and download the professor's latest version. Are you sure?'')
               True [js ''Yes, reset my work'']]\<rparr>)) \<and>
   (\<exists>branchName.
      prefix (map fst (execs (new_events w (snd (studentResync exec answer w)))))
        [js ''git fetch origin'', js ''git branch --show-current'',
         js ''git reset --hard origin/'' @ branchName, js ''git clean -fd'']) \<and>
   (answer = Some (js ''Yes, reset my work'') \<and>
    workspaceFolders w = Some (folder # others) \<and> folder \<noteq> [] \<and>
    exec (execs (events w)) (js ''git fetch origin'') folder = Callback None out1 err1 \<and>
    exec (execs (events w) @ [(js ''git fetch origin'', folder)]) (js ''git branch --show-current'') folder =
      Callback None stdout err2 \<and>
    exec (execs (events w) @ [(js ''git fetch origin'', folder), (js ''git branch --show-current'', folder)])
      (js ''git reset --hard origin/'' @ trim stdout) folder = Callback None out3 err3 \<longrightarrow>
      execs (new_events w (snd (studentResync exec answer w))) =
        [(js ''git fetch origin'', folder), (js ''git branch --show-current'', folder),
         (js ''git reset --hard origin/'' @ trim stdout, folder), (js ''git clean -fd'', folder)] \<and>
      take 1 (new_events w (snd (studentResync exec answer w))) =
        [ShowWarningMessage
           (js ''This will discard ALL your local changes and download the professor's latest version. Are you sure?'')
           True [js ''Yes, reset my work'']])"
proof (intro conjI impI)
  assume "answer \<noteq> Some (js ''Yes, reset my work'')"
  then show "studentResync exec answer w =
        (Resolved (),
         w\<lparr>events := events w @
            [ShowWarningMessage
               (js ''This will discard ALL your local changes and download the professor's latest version. Are you sure?'')
               True [js ''Yes, reset my work'']]\<rparr>)"
    by (simp add: studentResync_def await_def showWarningMessage_def resolve_def emit_def)
next
  show "\<exists>branchName.
      prefix (map fst (execs (new_events w (snd (studentResync exec answer w)))))
        [js ''git fetch origin'', js ''git branch --show-current'',
         js ''git reset --hard origin/'' @ branchName, js ''git clean -fd'']"
  proof (cases "folder_open w")
    case True
    from runs_new_events [OF studentResync_runs True] show ?thesis .
  next
    case False
    then show ?thesis by (simp add: studentResync_no_folder)
  qed
next
  assume a: "answer = Some (js ''Yes, reset my work'') \<and>
    workspaceFolders w = Some (folder # others) \<and> folder \<noteq> [] \<and>
    exec (execs (events w)) (js ''git fetch origin'') folder = Callback None out1 err1 \<and>
    exec (execs (events w) @ [(js ''git fetch origin'', folder)]) (js ''git branch --show-current'') folder =
      Callback None stdout err2 \<and>
    exec (execs (events w) @ [(js ''git fetch origin'', folder), (js ''git branch --show-current'', folder)])
      (js ''git reset --hard origin/'' @ trim stdout) folder = Callback None out3 err3"
  then show "execs (new_events w (snd (studentResync exec answer w))) =
        [(js ''git fetch origin'', folder), (js ''git branch --show-current'', folder),
         (js ''git reset --hard origin/'' @ trim stdout, folder), (js ''git clean -fd'', folder)]"
    by (simp add: studentResync_def await_def try_catch_def call_def resolve_def showWarningMessage_def
        showInformationMessage_def showErrorMessage_def emit_def runCommand_open execs_append
        new_events_def split: exec_result.splits option.splits)
  from a show "take 1 (new_events w (snd (studentResync exec answer w))) =
        [ShowWarningMessage
           (js ''This will discard ALL your local changes and download the professor's latest version. Are you sure?'')
           True [js ''Yes, reset my work'']]"
    by (simp add: studentResync_def await_def try_catch_def call_def resolve_def showWarningMessage_def
        showInformationMessage_def showErrorMessage_def emit_def runCommand_open execs_append
        new_events_def split: exec_result.splits option.splits)
qed

theorem studentResync_only_after_confirmation_witness:
  "studentResync (shell_prints (js ''main'' @ [0x0A])) None w_open =
     (Resolved (),
      w_open\<lparr>events :=
            [ShowWarningMessage
               (js ''This will discard ALL your local changes and download the professor's latest version. Are you sure?'')
               True [js ''Yes, reset my work'']]\<rparr>) \<and>
   execs (events (snd (studentResync (shell_prints (js ''main'' @ [0x0A])) (Some (js ''Yes, reset my work'')) w_open))) =
        [(js ''git fetch origin'', js ''/home/class''), (js ''git branch --show-current'', js ''/home/class''),
         (js ''git reset --hard origin/main'', js ''/home/class''), (js ''git clean -fd'', js ''/home/class'')]"
  using studentResync_only_after_confirmation
      [of None "shell_prints (js ''main'' @ [0x0A])" w_open]
    studentResync_only_after_confirmation
      [of "Some (js ''Yes, reset my work'')" "shell_prints (js ''main'' @ [0x0A])" w_open
        "js ''/home/class''" "[]" "js ''main'' @ [0x0A]" "[]" "js ''main'' @ [0x0A]" "[]" "js ''main'' @ [0x0A]" "[]"]
  by (simp add: w_open_def shell_prints_def new_events_def js_def trim_def isWhiteSpace_def)

subsection \<open>Professor setup\<close>

text \<open>
  Claim C6. In the professor setup, when the step that removes the existing \<^verbatim>\<open>origin\<close> remote
  is rejected (there was no such remote), the rejection is caught and only logged: the
  handler goes on with \<^verbatim>\<open>git remote add origin\<close>, so that a rejection of that next step is
  the one reported, and when the remaining steps (remote add, add, commit, branch query,
  push) succeed the setup ends with its success notification.
\<close>

theorem professorSetup_tolerates_missing_remote:
  assumes "repoName \<noteq> []"
    and "runCommand exec (js ''git config --global user.name \"'' @ js ''Afonso Miguel'' @ js ''\"'')
           (js ''Configuring user name...'')
           (emit (ShowInputBox (js ''Enter the repository name'')
                    (Some (js ''e.g., class-repo (must be created and empty on GitHub first)''))) w) =
         (Resolved out1, w1)"
    and "runCommand exec (js ''git config --global user.email \"'' @ js ''afonso.miguel@pucpr.br'' @ js ''\"'')
           (js ''Configuring email...'') w1 = (Resolved out2, w2)"
    and "runCommand exec (js ''git init'') (js ''Initializing local repository...'')
           (emit (ShowInformationMessage (js ''Git configured globally for: '' @ js ''Afonso Miguel'')) w2) =
         (Resolved out3, w3)"
    and "runCommand exec (js ''git remote remove origin'') (js ''Cleaning up old remote configurations...'') w3 =
         (Rejected error, w4)"
  shows "(runCommand exec
            (js ''git remote add origin '' @ (js ''https://github.com/afmiguel/'' @ repoName @ js ''.git''))
            (js ''Connecting to the remote repository...'')
            (emit (ConsoleLog (js ''No old 'origin' remote to remove, which is normal.'')) w4) =
          (Rejected error5, w5) \<longrightarrow>
          professorSetup exec (Some repoName) w =
            (Resolved (), emit (ShowErrorMessage (js ''An error occurred: '' @ error_text error5)) w5)) \<and>
         (runCommand exec
            (js ''git remote add origin '' @ (js ''https://github.com/afmiguel/'' @ repoName @ js ''.git''))
            (js ''Connecting to the remote repository...'')
            (emit (ConsoleLog (js ''No old 'origin' remote to remove, which is normal.'')) w4) =
          (Resolved out5, w5) \<and>
          runCommand exec (js ''git add .'') (js ''Adding files...'') w5 = (Resolved out6, w6) \<and>
          runCommand exec (js ''git commit --allow-empty -m \"Initial commit from Class Sync\"'')
            (js ''Making initial commit...'') w6 = (Resolved out7, w7) \<and>
          runCommand exec (js ''git branch --show-current'') (js ''Checking current branch...'') w7 =
            (Resolved stdout, w8) \<and>
          runCommand exec (js ''git push -u origin '' @ trim stdout) (js ''Pushing initial project...'') w8 =
            (Resolved out9, w9) \<longrightarrow>
          professorSetup exec (Some repoName) w =
            (Resolved (),
             emit (ShowInformationMessage (js ''Repository configured and pushed successfully!'')) w9))"
  using assms by (simp add: professorSetup_def Let_def handler_defs)

theorem professorSetup_tolerates_missing_remote_witness:
  "fst (professorSetup (shell_fails_at 3 (js ''main'' @ [0x0A])) (Some (js ''class-repo'')) w_open) =
     Resolved () \<and>
   length (execs (events (snd (professorSetup (shell_fails_at 3 (js ''main'' @ [0x0A]))
     (Some (js ''class-repo'')) w_open)))) = 9 \<and>
   last (events (snd (professorSetup (shell_fails_at 3 (js ''main'' @ [0x0A])) (Some (js ''class-repo'')) w_open))) =
     ShowInformationMessage (js ''Repository configured and pushed successfully!'')"
proof -
  define sh where "sh = shell_fails_at 3 (js ''main'' @ [0x0A])"
  define out where "out = js ''main'' @ [0x0A]"
  define w1 where "w1 = snd (runCommand sh
      (js ''git config --global user.name \"'' @ js ''Afonso Miguel'' @ js ''\"'')
      (js ''Configuring user name...'')
      (emit (ShowInputBox (js ''Enter the repository name'')
         (Some (js ''e.g., class-repo (must be created and empty on GitHub first)''))) w_open))"
  define w2 where "w2 = snd (runCommand sh
      (js ''git config --global user.email \"'' @ js ''afonso.miguel@pucpr.br'' @ js ''\"'')
      (js ''Configuring email...'') w1)"
  define w3 where "w3 = snd (runCommand sh (js ''git init'') (js ''Initializing local repository...'')
      (emit (ShowInformationMessage (js ''Git configured globally for: '' @ js ''Afonso Miguel'')) w2))"
  define w4 where "w4 = snd (runCommand sh (js ''git remote remove origin'')
      (js ''Cleaning up old remote configurations...'') w3)"
  define w5 where "w5 = snd (runCommand sh
      (js ''git remote add origin '' @ (js ''https://github.com/afmiguel/'' @ js ''class-repo'' @ js ''.git''))
      (js ''Connecting to the remote repository...'')
      (emit (ConsoleLog (js ''No old 'origin' remote to remove, which is normal.'')) w4))"
  define w6 where "w6 = snd (runCommand sh (js ''git add .'') (js ''Adding files...'') w5)"
  define w7 where "w7 = snd (runCommand sh
      (js ''git commit --allow-empty -m \"Initial commit from Class Sync\"'')
      (js ''Making initial commit...'') w6)"
  define w8 where "w8 = snd (runCommand sh (js ''git branch --show-current'')
      (js ''Checking current branch...'') w7)"
  define w9 where "w9 = snd (runCommand sh (js ''git push -u origin '' @ trim out)
      (js ''Pushing initial project...'') w8)"
  note defs = runCommand_def workspaceFolder_def emit_def w_open_def shell_fails_at_def sh_def
    out_def Let_def js_eq_Nil
  note ws = w1_def w2_def w3_def w4_def w5_def w6_def w7_def w8_def w9_def
  have "professorSetup sh (Some (js ''class-repo'')) w_open =
      (Resolved (),
       emit (ShowInformationMessage (js ''Repository configured and pushed successfully!'')) w9)"
    using professorSetup_tolerates_missing_remote
      [of "js ''class-repo''" sh w_open out w1 out w2 out w3 "ErrorObject git_error" w4 _ w5 out out w6 out w7 out w8 out w9]
    by (simp add: ws defs)
  then show ?thesis
    unfolding sh_def [symmetric] by (simp add: ws defs)
qed

subsection \<open>Failures\<close>

lemma professorSync_stops:
  "(let status = runCommand exec (js ''git status --porcelain'') (js ''Checking for changes...'');
        add = runCommand exec (js ''git add .'') (js ''Adding changes...'');
        commit = runCommand exec (js ''git commit -m \"Update from professor\"'') (js ''Committing changes...'');
        push = runCommand exec (js ''git push'') (js ''Pushing updates...'');
        stopped = (professorSync exec w =
          (Resolved (), emit (ShowErrorMessage (js ''Failed to push update: '' @ error_text error)) w'))
    in (status w = (Rejected error, w') \<longrightarrow> stopped) \<and>
       (status w = (Resolved out1, w1) \<and> trim out1 \<noteq> [] \<and>
        add w1 = (Rejected error, w') \<longrightarrow> stopped) \<and>
       (status w = (Resolved out1, w1) \<and> trim out1 \<noteq> [] \<and>
        add w1 = (Resolved out2, w2) \<and>
        commit w2 = (Rejected error, w') \<longrightarrow> stopped) \<and>
       (status w = (Resolved out1, w1) \<and> trim out1 \<noteq> [] \<and>
        add w1 = (Resolved out2, w2) \<and>
        commit w2 = (Resolved out3, w3) \<and>
        push w3 = (Rejected error, w') \<longrightarrow> stopped))"
  by (simp add: professorSync_def Let_def handler_defs)

lemma studentSetup_stops:
  "(answer = Some repoName \<and> repoName \<noteq> [] \<and>
    runCommand exec
      (js ''git clone '' @ (js ''https://github.com/afmiguel/'' @ repoName @ js ''.git'') @ js '' .'')
      (js ''Cloning the professor's project...'')
      (emit (ShowInputBox (js ''Enter the name of the professor's repository'') None) w) =
      (Rejected error, w') \<longrightarrow>
    studentSetup exec answer w =
      (Resolved (), emit (ShowErrorMessage (js ''Failed to clone repository: '' @ error_text error)) w'))"
  by (simp add: studentSetup_def Let_def handler_defs)

lemma studentResync_stops:
  "(let fetch = runCommand exec (js ''git fetch origin'') (js ''Fetching professor's version...'');
        branch = runCommand exec (js ''git branch --show-current'') (js ''Checking current branch...'');
        reset = (\<lambda>branchName. runCommand exec (js ''git reset --hard origin/'' @ branchName)
                   (js ''Resetting to professor's version...''));
        clean = runCommand exec (js ''git clean -fd'') (js ''Cleaning untracked files...'');
        w0 = emit (ShowWarningMessage
               (js ''This will discard ALL your local changes and download the professor's latest version. Are you sure?'')
               True [js ''Yes, reset my work'']) w;
        stopped = (studentResync exec (Some (js ''Yes, reset my work'')) w =
          (Resolved (), emit (ShowErrorMessage (js ''Failed to sync: '' @ error_text error)) w'))
    in (fetch w0 = (Rejected error, w') \<longrightarrow> stopped) \<and>
       (fetch w0 = (Resolved out1, w1) \<and>
        branch w1 = (Rejected error, w') \<longrightarrow> stopped) \<and>
       (fetch w0 = (Resolved out1, w1) \<and>
        branch w1 = (Resolved stdout, w2) \<and>
        reset (trim stdout) w2 = (Rejected error, w') \<longrightarrow> stopped) \<and>
       (fetch w0 = (Resolved out1, w1) \<and>
        branch w1 = (Resolved stdout, w2) \<and>
        reset (trim stdout) w2 = (Resolved out3, w3) \<and>
        clean w3 = (Rejected error, w') \<longrightarrow> stopped))"
  by (simp add: studentResync_def Let_def handler_defs)

lemma professorSetup_stops:
  "(let config_name = runCommand exec (js ''git config --global user.name \"'' @ js ''Afonso Miguel'' @ js ''\"'')
          (js ''Configuring user name...'');
        config_email = runCommand exec
          (js ''git config --global user.email \"'' @ js ''afonso.miguel@pucpr.br'' @ js ''\"'')
          (js ''Configuring email...'');
        init = runCommand exec (js ''git init'') (js ''Initializing local repository...'');
        remove = runCommand exec (js ''git remote remove origin'')
          (js ''Cleaning up old remote configurations...'');
        remote_add = runCommand exec
          (js ''git remote add origin '' @ (js ''https://github.com/afmiguel/'' @ repoName @ js ''.git''))
          (js ''Connecting to the remote repository...'');
        add = runCommand exec (js ''git add .'') (js ''Adding files...'');
        commit = runCommand exec (js ''git commit --allow-empty -m \"Initial commit from Class Sync\"'')
          (js ''Making initial commit...'');
        branch = runCommand exec (js ''git branch --show-current'') (js ''Checking current branch...'');
        push = (\<lambda>branchName. runCommand exec (js ''git push -u origin '' @ branchName)
                  (js ''Pushing initial project...''));
        w0 = emit (ShowInputBox (js ''Enter the repository name'')
               (Some (js ''e.g., class-repo (must be created and empty on GitHub first)''))) w;
        configured = (repoName \<noteq> [] \<and>
          config_name w0 = (Resolved out1, w1) \<and>
          config_email w1 = (Resolved out2, w2));
        initialized = (configured \<and>
          init (emit (ShowInformationMessage (js ''Git configured globally for: '' @ js ''Afonso Miguel'')) w2) =
            (Resolved out3, w3));
        cleaned = (initialized \<and>
          (remove w3 = (Resolved out4, w4) \<or>
           (\<exists>error4 w4'. remove w3 = (Rejected error4, w4') \<and>
              w4 = emit (ConsoleLog (js ''No old 'origin' remote to remove, which is normal.'')) w4')));
        connected = (cleaned \<and> remote_add w4 = (Resolved out5, w5));
        added = (connected \<and> add w5 = (Resolved out6, w6));
        committed = (added \<and> commit w6 = (Resolved out7, w7));
        stopped = (professorSetup exec (Some repoName) w =
          (Resolved (), emit (ShowErrorMessage (js ''An error occurred: '' @ error_text error)) w'))
    in (repoName \<noteq> [] \<and> config_name w0 = (Rejected error, w') \<longrightarrow> stopped) \<and>
       (repoName \<noteq> [] \<and> config_name w0 = (Resolved out1, w1) \<and>
        config_email w1 = (Rejected error, w') \<longrightarrow> stopped) \<and>
       (configured \<and>
        init (emit (ShowInformationMessage (js ''Git configured globally for: '' @ js ''Afonso Miguel'')) w2) =
          (Rejected error, w') \<longrightarrow> stopped) \<and>
       (cleaned \<and> remote_add w4 = (Rejected error, w') \<longrightarrow> stopped) \<and>
       (connected \<and> add w5 = (Rejected error, w') \<longrightarrow> stopped) \<and>
       (added \<and> commit w6 = (Rejected error, w') \<longrightarrow> stopped) \<and>
       (committed \<and> branch w7 = (Rejected error, w') \<longrightarrow> stopped) \<and>
       (committed \<and> branch w7 = (Resolved stdout, w8) \<and>
        push (trim stdout) w8 = (Rejected error, w') \<longrightarrow> stopped))"
  unfolding Let_def
  apply (intro conjI impI)
         apply (simp add: professorSetup_def Let_def handler_defs)
        apply (simp add: professorSetup_def Let_def handler_defs)
       apply (simp add: professorSetup_def Let_def handler_defs)
      apply (elim conjE disjE exE; simp add: professorSetup_def Let_def handler_defs)
     apply (elim conjE disjE exE; simp add: professorSetup_def Let_def handler_defs)
    apply (elim conjE disjE exE; simp add: professorSetup_def Let_def handler_defs)
   apply (elim conjE disjE exE; simp add: professorSetup_def Let_def handler_defs)
  apply (elim conjE disjE exE; simp add: professorSetup_def Let_def handler_defs)
  done

text \<open>
  Claim C4. In each of the four workflows, for every step other than the removal of the old
  \<^verbatim>\<open>origin\<close> remote in the professor setup: when the steps before it have succeeded
  and the promise of \<^verbatim>\<open>runCommand\<close> for that step is rejected, the handler ends in the world
  that this step left, with one error notification added that carries the handler's prefix
  and the text of the error. So no later step is run, nothing is rolled back and nothing is
  retried. (In the professor setup the removal step may have succeeded or may have been
  rejected and logged; both are covered.)
\<close>

theorem workflows_stop_at_first_rejection:
  "(let config_name = runCommand exec (js ''git config --global user.name \"'' @ js ''Afonso Miguel'' @ js ''\"'')
          (js ''Configuring user name...'');
        config_email = runCommand exec
          (js ''git config --global user.email \"'' @ js ''afonso.miguel@pucpr.br'' @ js ''\"'')
          (js ''Configuring email...'');
        init = runCommand exec (js ''git init'') (js ''Initializing local repository...'');
        remove = runCommand exec (js ''git remote remove origin'')
          (js ''Cleaning up old remote configurations...'');
        remote_add = runCommand exec
          (js ''git remote add origin '' @ (js ''https://github.com/afmiguel/'' @ repoName @ js ''.git''))
          (js ''Connecting to the remote repository...'');
        add = runCommand exec (js ''git add .'') (js ''Adding files...'');
        commit = runCommand exec (js ''git commit --allow-empty -m \"Initial commit from Class Sync\"'')
          (js ''Making initial commit...'');
        branch = runCommand exec (js ''git branch --show-current'') (js ''Checking current branch...'');
        push = (\<lambda>branchName. runCommand exec (js ''git push -u origin '' @ branchName)
                  (js ''Pushing initial project...''));
        w0 = emit (ShowInputBox (js ''Enter the repository name'')
               (Some (js ''e.g., class-repo (must be created and empty on GitHub first)''))) w;
        configured = (repoName \<noteq> [] \<and>
          config_name w0 = (Resolved out1, w1) \<and>
          config_email w1 = (Resolved out2, w2));
        initialized = (configured \<and>
          init (emit (ShowInformationMessage (js ''Git configured globally for: '' @ js ''Afonso Miguel'')) w2) =
            (Resolved out3, w3));
        cleaned = (initialized \<and>
          (remove w3 = (Resolved out4, w4) \<or>
           (\<exists>error4 w4'. remove w3 = (Rejected error4, w4') \<and>
              w4 = emit (ConsoleLog (js ''No old 'origin' remote to remove, which is normal.'')) w4')));
        connected = (cleaned \<and> remote_add w4 = (Resolved out5, w5));
        added = (connected \<and> add w5 = (Resolved out6, w6));
        committed = (added \<and> commit w6 = (Resolved out7, w7));
        stopped = (professorSetup exec (Some repoName) w =
          (Resolved (), emit (ShowErrorMessage (js ''An error occurred: '' @ error_text error)) w'))
    in (repoName \<noteq> [] \<and> config_name w0 = (Rejected error, w') \<longrightarrow> stopped) \<and>
       (repoName \<noteq> [] \<and> config_name w0 = (Resolved out1, w1) \<and>
        config_email w1 = (Rejected error, w') \<longrightarrow> stopped) \<and>
       (configured \<and>
        init (emit (ShowInformationMessage (js ''Git configured globally for: '' @ js ''Afonso Miguel'')) w2) =
          (Rejected error, w') \<longrightarrow> stopped) \<and>
       (cleaned \<and> remote_add w4 = (Rejected error, w') \<longrightarrow> stopped) \<and>
       (connected \<and> add w5 = (Rejected error, w') \<longrightarrow> stopped) \<and>
       (added \<and> commit w6 = (Rejected error, w') \<longrightarrow> stopped) \<and>
       (committed \<and> branch w7 = (Rejected error, w') \<longrightarrow> stopped) \<and>
       (committed \<and> branch w7 = (Resolved stdout, w8) \<and>
        push (trim stdout) w8 = (Rejected error, w') \<longrightarrow> stopped)) \<and>
   (let status = runCommand exec (js ''git status --porcelain'') (js ''Checking for changes...'');
        add = runCommand exec (js ''git add .'') (js ''Adding changes...'');
        commit = runCommand exec (js ''git commit -m \"Update from professor\"'') (js ''Committing changes...'');
        push = runCommand exec (js ''git push'') (js ''Pushing updates...'');
        stopped = (professorSync exec w =
          (Resolved (), emit (ShowErrorMessage (js ''Failed to push update: '' @ error_text error)) w'))
    in (status w = (Rejected error, w') \<longrightarrow> stopped) \<and>
       (status w = (Resolved out1, w1) \<and> trim out1 \<noteq> [] \<and>
        add w1 = (Rejected error, w') \<longrightarrow> stopped) \<and>
       (status w = (Resolved out1, w1) \<and> trim out1 \<noteq> [] \<and>
        add w1 = (Resolved out2, w2) \<and>
        commit w2 = (Rejected error, w') \<longrightarrow> stopped) \<and>
       (status w = (Resolved out1, w1) \<and> trim out1 \<noteq> [] \<and>
        add w1 = (Resolved out2, w2) \<and>
        commit w2 = (Resolved out3, w3) \<and>
        push w3 = (Rejected error, w') \<longrightarrow> stopped)) \<and>
   (answer = Some repoName \<and> repoName \<noteq> [] \<and>
    runCommand exec
      (js ''git clone '' @ (js ''https://github.com/afmiguel/'' @ repoName @ js ''.git'') @ js '' .'')
      (js ''Cloning the professor's project...'')
      (emit (ShowInputBox (js ''Enter the name of the professor's repository'') None) w) =
      (Rejected error, w') \<longrightarrow>
    studentSetup exec answer w =
      (Resolved (), emit (ShowErrorMessage (js ''Failed to clone repository: '' @ error_text error)) w')) \<and>
   (let fetch = runCommand exec (js ''git fetch origin'') (js ''Fetching professor's version...'');
        branch = runCommand exec (js ''git branch --show-current'') (js ''Checking current branch...'');
        reset = (\<lambda>branchName. runCommand exec (js ''git reset --hard origin/'' @ branchName)
                   (js ''Resetting to professor's version...''));
        clean = runCommand exec (js ''git clean -fd'') (js ''Cleaning untracked files...'');
        w0 = emit (ShowWarningMessage
               (js ''This will discard ALL your local changes and download the professor's latest version. Are you sure?'')
               True [js ''Yes, reset my work'']) w;
        stopped = (studentResync exec (Some (js ''Yes, reset my work'')) w =
          (Resolved (), emit (ShowErrorMessage (js ''Failed to sync: '' @ error_text error)) w'))
    in (fetch w0 = (Rejected error, w') \<longrightarrow> stopped) \<and>
       (fetch w0 = (Resolved out1, w1) \<and>
        branch w1 = (Rejected error, w') \<longrightarrow> stopped) \<and>
       (fetch w0 = (Resolved out1, w1) \<and>
        branch w1 = (Resolved stdout, w2) \<and>
        reset (trim stdout) w2 = (Rejected error, w') \<longrightarrow> stopped) \<and>
       (fetch w0 = (Resolved out1, w1) \<and>
        branch w1 = (Resolved stdout, w2) \<and>
        reset (trim stdout) w2 = (Resolved out3, w3) \<and>
        clean w3 = (Rejected error, w') \<longrightarrow> stopped))"
  by (intro conjI professorSetup_stops professorSync_stops studentSetup_stops studentResync_stops)

theorem workflows_stop_at_first_rejection_witness:
  "professorSync (shell_fails_at 1 (js '' M notes.txt'')) w_open =
     (Resolved (),
      w_open\<lparr>events :=
        [WithProgress (js ''Checking for changes...''),
         Exec (js ''git status --porcelain'') (js ''/home/class''),
         ConsoleLog (js ''Command output: '' @ js '' M notes.txt''),
         WithProgress (js ''Adding changes...''),
         Exec (js ''git add .'') (js ''/home/class''),
         ConsoleError (js ''Execution error object:'') git_error,
         ShowErrorMessage (js ''Failed to push update: '' @ js ''Command failed'')]\<rparr>) \<and>
   studentSetup (shell_fails_at 0 []) (Some (js ''class-repo'')) w_open =
     (Resolved (),
      w_open\<lparr>events :=
        [ShowInputBox (js ''Enter the name of the professor's repository'') None,
         WithProgress (js ''Cloning the professor's project...''),
         Exec (js ''git clone '' @ (js ''https://github.com/afmiguel/'' @ js ''class-repo'' @ js ''.git'') @ js '' .'')
           (js ''/home/class''),
         ConsoleError (js ''Execution error object:'') git_error,
         ShowErrorMessage (js ''Failed to clone repository: '' @ js ''Command failed'')]\<rparr>)"
proof -
  have t: "trim (js '' M notes.txt'') \<noteq> []"
    by (simp add: js_def trim_def isWhiteSpace_def)
  show ?thesis
    using t workflows_stop_at_first_rejection
      [where exec = "shell_fails_at 1 (js '' M notes.txt'')" and w = w_open
        and error = "ErrorObject git_error" and ?out1.0 = "js '' M notes.txt''"
        and ?w1.0 = "w_open\<lparr>events :=
          [WithProgress (js ''Checking for changes...''),
           Exec (js ''git status --porcelain'') (js ''/home/class''),
           ConsoleLog (js ''Command output: '' @ js '' M notes.txt'')]\<rparr>"
        and w' = "w_open\<lparr>events :=
          [WithProgress (js ''Checking for changes...''),
           Exec (js ''git status --porcelain'') (js ''/home/class''),
           ConsoleLog (js ''Command output: '' @ js '' M notes.txt''),
           WithProgress (js ''Adding changes...''),
           Exec (js ''git add .'') (js ''/home/class''),
           ConsoleError (js ''Execution error object:'') git_error]\<rparr>"]
      workflows_stop_at_first_rejection
      [where exec = "shell_fails_at 0 []" and w = w_open and answer = "Some (js ''class-repo'')"
        and repoName = "js ''class-repo''" and error = "ErrorObject git_error"
        and w' = "w_open\<lparr>events :=
          [ShowInputBox (js ''Enter the name of the professor's repository'') None,
           WithProgress (js ''Cloning the professor's project...''),
           Exec (js ''git clone '' @ (js ''https://github.com/afmiguel/'' @ js ''class-repo'' @ js ''.git'') @ js '' .'')
             (js ''/home/class''),
           ConsoleError (js ''Execution error object:'') git_error]\<rparr>"]
    by (simp add: Let_def runCommand_def workspaceFolder_def emit_def w_open_def shell_fails_at_def
        error_text_def git_error_def js_eq_Nil)
qed

text \<open>
  The removal step is the exception: in this run of the professor setup the fourth command,
  \<^verbatim>\<open>git remote remove origin\<close>, is rejected (the one rejection that \<^verbatim>\<open>runCommand\<close> logs), yet
  the five later commands are run and no error notification is shown.
\<close>

theorem professorSetup_remove_rejection_not_surfaced:
  "map fst (execs (events (snd (professorSetup (shell_fails_at 3 (js ''main'' @ [0x0A]))
       (Some (js ''class-repo'')) w_open)))) =
     [js ''git config --global user.name \"Afonso Miguel\"'',
      js ''git config --global user.email \"afonso.miguel@pucpr.br\"'',
      js ''git init'',
      js ''git remote remove origin'',
      js ''git remote add origin https://github.com/afmiguel/class-repo.git'',
      js ''git add .'',
      js ''git commit --allow-empty -m \"Initial commit from Class Sync\"'',
      js ''git branch --show-current'',
      js ''git push -u origin main''] \<and>
   filter is_rejection_log
     (events (snd (professorSetup (shell_fails_at 3 (js ''main'' @ [0x0A]))
       (Some (js ''class-repo'')) w_open))) =
     [ConsoleError (js ''Execution error object:'') git_error] \<and>
   filter is_error_notification
     (events (snd (professorSetup (shell_fails_at 3 (js ''main'' @ [0x0A]))
       (Some (js ''class-repo'')) w_open))) = []"
  by (simp add: professorSetup_def handler_defs emit_def runCommand_def workspaceFolder_def
      w_open_def shell_fails_at_def trim_main js_eq_Nil js_append js_inject Let_def)

subsection \<open>The remote URL\<close>








end
